theory Spec2Isabelle
  imports Complex_Main
begin

section \<open>Numbers\<close>

text \<open>
  JavaScript numbers are IEEE-754 doubles. Throughout this development a finite number is
  modelled as a \<^typ>\<open>real\<close>, so arithmetic is exact: rounding error of the double
  operations is not represented. Where the code depends on the non-finite values
  (\<open>Infinity\<close> as the bound of a catch-all band, \<open>NaN\<close> from converting \<open>undefined\<close> or a
  text to a number) they are separate constructors of the type \<open>jsnum\<close> below.
\<close>

section \<open>constants.js: CONVERSIONS\<close>

definition GALLONS_TO_LITERS :: real where
  "GALLONS_TO_LITERS = 0.264172"

definition LITERS_TO_GALLONS :: real where
  "LITERS_TO_GALLONS = 3.78541"

definition INCHES_TO_CM :: real where
  "INCHES_TO_CM = 2.54"

definition CM_TO_INCHES :: real where
  "CM_TO_INCHES = 0.393701"

definition DISPLACEMENT_PERCENT :: real where
  "DISPLACEMENT_PERCENT = 0.1"

section \<open>TankCalculator\<close>

definition calculateVolume :: "real \<Rightarrow> real \<Rightarrow> real \<Rightarrow> real" where
  "calculateVolume length' width height =
     (let lengthCm = length' * INCHES_TO_CM;
          widthCm = width * INCHES_TO_CM;
          heightCm = height * INCHES_TO_CM;
          volumeCm3 = lengthCm * widthCm * heightCm
      in volumeCm3 / 1000)"

definition convertToGallons :: "real \<Rightarrow> real" where
  "convertToGallons liters = liters * GALLONS_TO_LITERS"

definition convertToLiters :: "real \<Rightarrow> real" where
  "convertToLiters gallons = gallons / GALLONS_TO_LITERS"

definition adjustForDisplacement :: "real \<Rightarrow> real \<Rightarrow> real" where
  "adjustForDisplacement volumeLiters displacementPercent =
     volumeLiters * (1 - displacementPercent)"

record surface_area =
  totalSqIn :: real
  totalSqFt :: real
  topSqIn :: real
  topSqFt :: real

definition calculateSurfaceArea :: "real \<Rightarrow> real \<Rightarrow> real \<Rightarrow> surface_area" where
  "calculateSurfaceArea length' width height =
     (let topBottom = 2 * (length' * width);
          frontBack = 2 * (length' * height);
          leftRight = 2 * (width * height);
          totalAreaSqIn = topBottom + frontBack + leftRight;
          topAreaSqIn = length' * width
      in \<lparr> totalSqIn = totalAreaSqIn,
           totalSqFt = totalAreaSqIn / 144,
           topSqIn = topAreaSqIn,
           topSqFt = topAreaSqIn / 144 \<rparr>)"

section \<open>GlassRecommender\<close>

text \<open>A number that may be non-finite: \<open>NaN\<close>, a finite value, or \<open>Infinity\<close>.\<close>

datatype jsnum = NaN | Fin real | PInf

record glass_row =
  maxDepth :: real
  maxVolume :: jsnum
  thickness :: real
  description :: string

definition recommendations :: "glass_row list" where
  "recommendations =
     [\<lparr> maxDepth = 12, maxVolume = Fin 20, thickness = 3,
        description = ''3mm (for nano tanks only)'' \<rparr>,
      \<lparr> maxDepth = 15, maxVolume = Fin 40, thickness = 5,
        description = ''5mm (small tanks)'' \<rparr>,
      \<lparr> maxDepth = 24, maxVolume = Fin 100, thickness = 6,
        description = ''6mm (small-medium tanks)'' \<rparr>,
      \<lparr> maxDepth = 30, maxVolume = Fin 200, thickness = 8,
        description = ''8mm (medium tanks)'' \<rparr>,
      \<lparr> maxDepth = 36, maxVolume = Fin 400, thickness = 10,
        description = ''10mm (large tanks)'' \<rparr>,
      \<lparr> maxDepth = 48, maxVolume = PInf, thickness = 12,
        description = ''12mm+ (extra large tanks)'' \<rparr>]"

definition getThicknessForDimensions :: "real \<Rightarrow> real \<Rightarrow> real" where
  "getThicknessForDimensions depth panelSize =
     (let baseThickness =
            (if depth \<le> 12 then 3
             else if depth \<le> 15 then 5
             else if depth \<le> 24 then 6
             else if depth \<le> 30 then 8
             else if depth \<le> 36 then 10
             else 12);
          baseThickness = (if panelSize > 48 then baseThickness + 2 else baseThickness);
          baseThickness = (if panelSize > 60 then baseThickness + 2 else baseThickness)
      in min baseThickness 12)"

text \<open>
  \<open>getRecommendation\<close>: the row is found by its thickness; when there is none the
  description of the last row is returned (the table is a non-empty constant).
\<close>

definition getRecommendation :: "real \<Rightarrow> real \<Rightarrow> real \<Rightarrow> string" where
  "getRecommendation length' width height =
     (let maxPanelDimension = max length' width;
          recommendedThickness = getThicknessForDimensions height maxPanelDimension;
          recommendedThickness =
            (if maxPanelDimension > 60 then max recommendedThickness 10
             else recommendedThickness)
      in case find (\<lambda>rec. thickness rec = recommendedThickness) recommendations of
           Some thicknessRec \<Rightarrow> description thicknessRec
         | None \<Rightarrow> description (last recommendations))"

record detailed_recommendation =
  dr_thickness :: string
  safetyNote :: string
  considerations :: "string list"

definition getDetailedRecommendation :: "real \<Rightarrow> real \<Rightarrow> real \<Rightarrow> detailed_recommendation" where
  "getDetailedRecommendation length' width height =
     (let thickness' = getRecommendation length' width height;
          maxPanelDimension = max length' width;
          safetyNote' =
            (if height > 36 \<or> maxPanelDimension > 60
             then ''Consider professional consultation for tanks over 36\" deep or panels over 5' long.''
             else if height > 24 \<or> maxPanelDimension > 48
             then ''Ensure proper bracing and frame support for optimal safety.''
             else '''');
          considerations' =
            [''Always use tempered or laminated glass for safety'',
             ''Consider professional installation for larger tanks'',
             ''Regular inspection of seals and supports recommended''];
          considerations' =
            (if maxPanelDimension > 48
             then considerations' @
                  [''Extra reinforcement recommended for panels over 4 feet long'']
             else considerations')
      in \<lparr> dr_thickness = thickness', safetyNote = safetyNote',
           considerations = considerations' \<rparr>)"

definition requiresSpecialAttention :: "real \<Rightarrow> real \<Rightarrow> real \<Rightarrow> bool" where
  "requiresSpecialAttention length' width height =
     (let maxPanelDimension = max length' width
      in height > 36 \<or> maxPanelDimension > 60)"

section \<open>DimensionFinder\<close>

definition minDimension :: real where
  "minDimension = 10"

definition maxDimension :: real where
  "maxDimension = 120"

definition tolerancePercent :: real where
  "tolerancePercent = 0.1"

text \<open>
  The optional constraints object: a field is \<open>None\<close> when the property is absent.
  \<open>constraints.maxWidth || d\<close> takes the default \<open>d\<close> when the property is absent or 0.
\<close>

record constraints =
  maxWidth :: "real option"
  maxLength :: "real option"
  maxHeight :: "real option"

definition no_constraints :: constraints where
  "no_constraints = \<lparr> maxWidth = None, maxLength = None, maxHeight = None \<rparr>"

definition or_default :: "real option \<Rightarrow> real \<Rightarrow> real" where
  "or_default v d = (case v of None \<Rightarrow> d | Some x \<Rightarrow> if x = 0 then d else x)"

text \<open>
  \<open>getDimensionRange\<close>: the \<open>while (current <= max)\<close> loop, returning the values pushed.
  Every round adds at least 2 to \<open>current\<close>, so over the reals the loop ends for every
  bound. The bounds of the model are finite reals: in the source the loop does not end
  when \<open>max\<close> is \<open>Infinity\<close>, nor once \<open>current\<close> is so large (from 2^56 on) that adding 6
  to the double leaves it unchanged. Nothing proved below speaks about such bounds.
\<close>

function getDimensionRange :: "real \<Rightarrow> real \<Rightarrow> real list" where
  "getDimensionRange current max' =
     (if current \<le> max'
      then current # getDimensionRange
             (if current < 24 then current + 2
              else if current < 48 then current + 4
              else current + 6) max'
      else [])"
  by pat_completeness auto
termination
  by (relation "measure (\<lambda>(current, max'). nat (\<lfloor>max' - current\<rfloor> + 1))")
     (auto simp: nat_less_iff; linarith)+

declare getDimensionRange.simps [simp del]

text \<open>The volume in litres of the finder is a copy of the calculator's, with the literal 2.54.\<close>

definition finder_calculateVolume :: "real \<Rightarrow> real \<Rightarrow> real \<Rightarrow> real" where
  "finder_calculateVolume length' width height =
     (let lengthCm = length' * 2.54;
          widthCm = width * 2.54;
          heightCm = height * 2.54;
          volumeCm3 = lengthCm * widthCm * heightCm
      in volumeCm3 / 1000)"

text \<open>
  \<open>x.toFixed(1)\<close> is the decimal text with one fractional digit nearest to \<open>x\<close> (the larger
  one on a tie, the sign treated apart); the model keeps the number that text denotes,
  which is also what \<open>parseFloat\<close> reads back. \<open>Math.round\<close> rounds to the nearest integer,
  ties upwards. The model rounds the exact real, the source the double nearest to it: the
  two differ where the real lies on a tie and its double just below it (the quotient
  14 / 40 prints as 0.3 in the source and is 0.4 here). No value rounded in the search
  for 20 gallons that is evaluated below lies on a tie.
\<close>

definition toFixed1 :: "real \<Rightarrow> real" where
  "toFixed1 x =
     (if x < 0 then - (of_int \<lfloor>- x * 10 + 1 / 2\<rfloor> / 10)
      else of_int \<lfloor>x * 10 + 1 / 2\<rfloor> / 10)"

definition Math_round :: "real \<Rightarrow> int" where
  "Math_round x = \<lfloor>x + 1 / 2\<rfloor>"

text \<open>
  The aspect-ratio text is a label followed by a ratio printed with one decimal; the model
  keeps the label as the constructor and the printed ratio as its argument.
\<close>

datatype aspect = Wide real | Deep real | Tall real | Long real | Standard real

definition getAspectRatio :: "real \<Rightarrow> real \<Rightarrow> real \<Rightarrow> aspect" where
  "getAspectRatio length' width height =
     (let lwRatio = toFixed1 (length' / width);
          lhRatio = toFixed1 (length' / height)
      in if length' > width * 2 then Wide lwRatio
         else if width > length' * 1.5 then Deep (toFixed1 (width / length'))
         else if height > length' * 0.8 then Tall lhRatio
         else if length' > height * 2 then Long lhRatio
         else Standard lwRatio)"

record search_result =
  res_width :: int
  res_length :: int
  res_height :: int
  res_volumeGallons :: real
  res_percentDifference :: real
  res_aspectRatio :: aspect
  res_footprint :: int
  res_depth :: int

text \<open>
  The body of the innermost loop: the candidate is pushed when its deviation is within the
  tolerance. The result is the list of what one round pushes (nothing or one entry).
  With a target of 0 the quotient is \<open>Infinity\<close> or \<open>NaN\<close> in the source, for which the
  comparison is false, so nothing is pushed.
\<close>

definition candidate :: "real \<Rightarrow> real \<Rightarrow> real \<Rightarrow> real \<Rightarrow> search_result list" where
  "candidate targetVolumeGallons width length' height =
     (let volume = finder_calculateVolume length' width height;
          volumeGallons = volume * 0.264172;
          difference = \<bar>volumeGallons - targetVolumeGallons\<bar>;
          percentDifference = (difference / targetVolumeGallons) * 100
      in if targetVolumeGallons \<noteq> 0 \<and> percentDifference \<le> tolerancePercent * 100
         then [\<lparr> res_width = Math_round width,
                 res_length = Math_round length',
                 res_height = Math_round height,
                 res_volumeGallons = toFixed1 volumeGallons,
                 res_percentDifference = toFixed1 percentDifference,
                 res_aspectRatio = getAspectRatio length' width height,
                 res_footprint = Math_round (length' * width),
                 res_depth = Math_round height \<rparr>]
         else [])"

text \<open>
  \<open>getUniqueResults\<close>: the loop over the sorted results with its two variables, the list
  \<open>unique\<close> and the set \<open>seen\<close> of keys. The key text \<open>WxLxH\<close> of three integers is
  modelled by the triple itself. The loop stops right after a push that brings \<open>unique\<close>
  to \<open>maxResults\<close> entries or more.
\<close>

fun unique_loop ::
  "search_result list \<Rightarrow> int \<Rightarrow> search_result list \<Rightarrow> (int \<times> int \<times> int) set
   \<Rightarrow> search_result list" where
  "unique_loop [] maxResults unique seen = unique"
| "unique_loop (result # rest) maxResults unique seen =
     (let key = (res_width result, res_length result, res_height result)
      in if key \<notin> seen
         then (let seen' = insert key seen;
                   unique' = unique @ [result]
               in if int (length unique') \<ge> maxResults then unique'
                  else unique_loop rest maxResults unique' seen')
         else unique_loop rest maxResults unique seen)"

definition getUniqueResults :: "search_result list \<Rightarrow> int \<Rightarrow> search_result list" where
  "getUniqueResults results maxResults = unique_loop results maxResults [] {}"

text \<open>
  \<open>findDimensions\<close>: the three nested for statements push the candidates in enumeration order
  (\<open>enumerate_candidates\<close>); the sort by the printed deviation is stable, as the
  language has required of \<open>Array.prototype.sort\<close> since ECMAScript 2019. The constant
  \<open>targetLiters\<close> of the source is computed and never used. The bounds are finite numbers
  (with \<open>Infinity\<close> as a maximum the loop of \<open>getDimensionRange\<close> would not end).
\<close>

definition enumerate_candidates :: "real \<Rightarrow> constraints \<Rightarrow> search_result list" where
  "enumerate_candidates targetVolumeGallons cs =
     (let maxWidth' = or_default (maxWidth cs) maxDimension;
          maxLength' = or_default (maxLength cs) maxDimension;
          maxHeight' = or_default (maxHeight cs) 60;
          widthRange = getDimensionRange minDimension maxWidth';
          lengthRange = getDimensionRange minDimension maxLength';
          heightRange = getDimensionRange 12 maxHeight'
      in concat (map (\<lambda>width.
           concat (map (\<lambda>length'.
             concat (map (\<lambda>height.
               candidate targetVolumeGallons width length' height)
             heightRange))
           lengthRange))
         widthRange))"

definition findDimensions :: "real \<Rightarrow> constraints \<Rightarrow> int \<Rightarrow> search_result list" where
  "findDimensions targetVolumeGallons cs maxResults =
     (let results = enumerate_candidates targetVolumeGallons cs;
          results = sort_key res_percentDifference results
      in getUniqueResults results maxResults)"

section \<open>Values passed to the equipment strategies\<close>

text \<open>
  The strategies are called with argument lists of mixed values (numbers, \<open>null\<close>, the
  surface-area object, missing arguments) and rely on the conversions of the language:
  truthiness for \<open>||\<close>, conversion to a number for \<open><=\<close>, \<open><\<close>, \<open>>\<close> and \<open>*\<close>.
\<close>

datatype jsval = JUndefined | JNull | JNum jsnum | JStr string | JObj surface_area

definition is_space :: "char \<Rightarrow> bool" where
  "is_space c = (c = CHR '' '' \<or> c = CHR 0x09 \<or> c = CHR 0x0A \<or> c = CHR 0x0D)"

definition is_digit :: "char \<Rightarrow> bool" where
  "is_digit c = (48 \<le> (of_char c :: nat) \<and> (of_char c :: nat) \<le> 57)"

definition trim :: "string \<Rightarrow> string" where
  "trim s = rev (dropWhile is_space (rev (dropWhile is_space s)))"

text \<open>
  The number a text converts to: 0 for a blank text, the value of an unsigned decimal
  integer, \<open>NaN\<close> for a text that is not a numeric literal. Signed, fractional, exponent
  and radix-prefixed literals are not read (they do not occur among the texts of this
  program, which all contain words).
\<close>

definition string_to_number :: "string \<Rightarrow> jsnum" where
  "string_to_number s =
     (let t = trim s
      in if t = [] then Fin 0
         else if list_all is_digit t
         then Fin (real (foldl (\<lambda>n c. n * 10 + (of_char c - 48)) (0::nat) t))
         else NaN)"

fun to_number :: "jsval \<Rightarrow> jsnum" where
  "to_number JUndefined = NaN"
| "to_number JNull = Fin 0"
| "to_number (JNum n) = n"
| "to_number (JStr s) = string_to_number s"
| "to_number (JObj obj) = NaN"

fun truthy :: "jsval \<Rightarrow> bool" where
  "truthy JUndefined = False"
| "truthy JNull = False"
| "truthy (JNum NaN) = False"
| "truthy (JNum (Fin x)) = (x \<noteq> 0)"
| "truthy (JNum PInf) = True"
| "truthy (JStr s) = (s \<noteq> [])"
| "truthy (JObj obj) = True"

definition js_or :: "jsval \<Rightarrow> jsval \<Rightarrow> jsval" where
  "js_or a b = (if truthy a then a else b)"

text \<open>Comparisons of numbers: every comparison with \<open>NaN\<close> is false.\<close>

fun num_le :: "jsnum \<Rightarrow> jsnum \<Rightarrow> bool" where
  "num_le (Fin a) (Fin b) = (a \<le> b)"
| "num_le (Fin a) PInf = True"
| "num_le PInf PInf = True"
| "num_le a b = False"

fun num_lt :: "jsnum \<Rightarrow> jsnum \<Rightarrow> bool" where
  "num_lt (Fin a) (Fin b) = (a < b)"
| "num_lt (Fin a) PInf = True"
| "num_lt a b = False"

definition num_gt :: "jsnum \<Rightarrow> jsnum \<Rightarrow> bool" where
  "num_gt a b = num_lt b a"

text \<open>The product of a number and a positive finite constant.\<close>

fun num_times :: "jsnum \<Rightarrow> real \<Rightarrow> jsnum" where
  "num_times NaN c = NaN"
| "num_times (Fin a) c = Fin (a * c)"
| "num_times PInf c = PInf"

text \<open>\<open>v <= n\<close>, \<open>v < n\<close> and \<open>v > n\<close> for a number \<open>n\<close>: the left operand is converted.\<close>

definition js_le :: "jsval \<Rightarrow> jsnum \<Rightarrow> bool" where
  "js_le v n = num_le (to_number v) n"

definition js_lt :: "jsval \<Rightarrow> jsnum \<Rightarrow> bool" where
  "js_lt v n = num_lt (to_number v) n"

definition js_gt :: "jsval \<Rightarrow> jsnum \<Rightarrow> bool" where
  "js_gt v n = num_gt (to_number v) n"

text \<open>\<open>params[i]\<close>: \<open>undefined\<close> beyond the end of the argument list.\<close>

definition param :: "jsval list \<Rightarrow> nat \<Rightarrow> jsval" where
  "param params i = (if i < length params then params ! i else JUndefined)"

text \<open>
  \<open>v?.topSqFt\<close>: \<open>undefined\<close> for \<open>null\<close> and \<open>undefined\<close>, and for a number or a text,
  which have no such property.
\<close>

fun optional_topSqFt :: "jsval \<Rightarrow> jsval" where
  "optional_topSqFt (JObj obj) = JNum (Fin (topSqFt obj))"
| "optional_topSqFt v = JUndefined"

section \<open>EquipmentStrategy\<close>

text \<open>
  A band of a rule table is an object with one bound property (\<open>maxVolume\<close>, \<open>maxArea\<close> or
  \<open>maxFlow\<close>) and a \<open>recommendation\<close> text.
\<close>

datatype criteria_key = MaxVolume | MaxArea | MaxFlow

record band =
  band_key :: criteria_key
  bound :: jsnum
  recommendation :: string

definition by_volume :: "jsnum \<Rightarrow> string \<Rightarrow> band" where
  "by_volume b r = \<lparr> band_key = MaxVolume, bound = b, recommendation = r \<rparr>"

definition by_area :: "jsnum \<Rightarrow> string \<Rightarrow> band" where
  "by_area b r = \<lparr> band_key = MaxArea, bound = b, recommendation = r \<rparr>"

definition by_flow :: "jsnum \<Rightarrow> string \<Rightarrow> band" where
  "by_flow b r = \<lparr> band_key = MaxFlow, bound = b, recommendation = r \<rparr>"

text \<open>
  \<open>rec[property]\<close> as the right operand of a comparison: the bound when the band has the
  property, otherwise \<open>undefined\<close>, which converts to \<open>NaN\<close>.
\<close>

definition band_prop :: "band \<Rightarrow> criteria_key \<Rightarrow> jsnum" where
  "band_prop rec k = (if band_key rec = k then bound rec else NaN)"

definition getCriteriaProperty :: "band \<Rightarrow> criteria_key" where
  "getCriteriaProperty rec =
     (if band_key rec = MaxVolume then MaxVolume
      else if band_key rec = MaxArea then MaxArea
      else if band_key rec = MaxFlow then MaxFlow
      else MaxVolume)"

text \<open>
  What a criteria extractor returns: a single value, or the three-element array of the
  \<open>dimensions\<close> extractor.
\<close>

datatype criteria = Value jsval | Array3 jsval jsval jsval

record strategy =
  strategy_type :: string
  strategy_recommendations :: "band list"
  criteriaExtractor :: "jsval list \<Rightarrow> criteria"

definition getDefaultExtractor :: "string \<Rightarrow> jsval list \<Rightarrow> criteria" where
  "getDefaultExtractor type' =
     (if type' = ''volume'' then (\<lambda>params. Value (param params 0))
      else if type' = ''surfaceArea''
        then (\<lambda>params. Value (js_or (optional_topSqFt (param params 1)) (JNum (Fin 0))))
      else if type' = ''flow''
        then (\<lambda>params. Value (js_or (param params 2) (JNum (Fin 300))))
      else if type' = ''dimensions''
        then (\<lambda>params. Array3 (param params 0) (param params 3) (param params 4))
      else (\<lambda>params. Value (JNum (Fin 0))))"

definition EquipmentStrategy ::
  "string \<Rightarrow> band list \<Rightarrow> (jsval list \<Rightarrow> criteria) option \<Rightarrow> strategy" where
  "EquipmentStrategy type' recs extractor =
     \<lparr> strategy_type = type', strategy_recommendations = recs,
       criteriaExtractor =
         (case extractor of None \<Rightarrow> getDefaultExtractor type' | Some f \<Rightarrow> f) \<rparr>"

text \<open>
  \<open>recs[recs.length - 1]?.recommendation || '--'\<close>: the text of the last band, or the
  placeholder when the table is empty or that text is empty.
\<close>

definition last_or_placeholder :: "band list \<Rightarrow> string" where
  "last_or_placeholder recs =
     (if recs = [] then ''--''
      else if recommendation (last recs) = [] then ''--''
      else recommendation (last recs))"

text \<open>
  \<open>criteriaValue <= rec[property]\<close>: a single value is converted to a number; the
  three-element array converts to a text with commas, hence to \<open>NaN\<close>.
\<close>

fun criteria_le :: "criteria \<Rightarrow> jsnum \<Rightarrow> bool" where
  "criteria_le (Value v) n = js_le v n"
| "criteria_le (Array3 a b c) n = False"

datatype error = TypeError

definition dimensions_text :: "band list \<Rightarrow> jsval \<Rightarrow> jsval \<Rightarrow> jsval \<Rightarrow> string" where
  "dimensions_text recs volumeGallons length' width =
     (let baseRec =
            (case find (\<lambda>rec. js_le volumeGallons (band_prop rec MaxVolume)) recs of
               Some rec \<Rightarrow> recommendation rec
             | None \<Rightarrow> last_or_placeholder recs)
      in if js_gt length' (num_times (to_number width) 1.5)
         then baseRec @ '' - consider multiple units for even flow in long tanks''
         else baseRec)"

text \<open>
  \<open>getDimensionsRecommendation([volumeGallons, length, width])\<close>: the parameter pattern
  takes the first three elements of the array; of a text it takes the first three
  characters; any other single value is not iterable.
\<close>

definition char_at :: "string \<Rightarrow> nat \<Rightarrow> jsval" where
  "char_at s i = (if i < length s then JStr [s ! i] else JUndefined)"

fun getDimensionsRecommendation :: "band list \<Rightarrow> criteria \<Rightarrow> error + string" where
  "getDimensionsRecommendation recs (Array3 volumeGallons length' width) =
     Inr (dimensions_text recs volumeGallons length' width)"
| "getDimensionsRecommendation recs (Value (JStr s)) =
     Inr (dimensions_text recs (char_at s 0) (char_at s 1) (char_at s 2))"
| "getDimensionsRecommendation recs (Value v) = Inl TypeError"

definition strategy_getRecommendation :: "strategy \<Rightarrow> jsval list \<Rightarrow> error + string" where
  "strategy_getRecommendation this params =
     (let criteriaValue = criteriaExtractor this params
      in if strategy_type this = ''dimensions''
         then getDimensionsRecommendation (strategy_recommendations this) criteriaValue
         else (case find (\<lambda>rec. criteria_le criteriaValue (band_prop rec (getCriteriaProperty rec)))
                      (strategy_recommendations this) of
                 Some rec \<Rightarrow> Inr (recommendation rec)
               | None \<Rightarrow> Inr (last_or_placeholder (strategy_recommendations this))))"

section \<open>EquipmentStrategyFactory\<close>

definition filter_recommendations :: "band list" where
  "filter_recommendations =
     [by_volume (Fin 20) ''10-20 GPH canister or small HOB filter'',
      by_volume (Fin 40) ''20-40 GPH canister or medium HOB filter'',
      by_volume (Fin 75) ''40-75 GPH canister filter'',
      by_volume (Fin 125) ''75-125 GPH canister filter'',
      by_volume (Fin 200) ''125-200 GPH canister filter'',
      by_volume PInf ''200+ GPH canister filter or sump system'']"

text \<open>
  The function handed to the filter strategy as its criteria extractor. It returns the
  composed recommendation text. (\<open>find(...)?.recommendation || last\<close>: the text found, or
  the last band's when none is found or the text is empty.)
\<close>

definition filter_extractor :: "jsval list \<Rightarrow> criteria" where
  "filter_extractor params =
     (let volumeGallons = param params 0;
          surfaceArea = param params 1;
          rec = (case find (\<lambda>r. js_le volumeGallons (band_prop r MaxVolume)) filter_recommendations of
                   Some r \<Rightarrow> if recommendation r \<noteq> [] then recommendation r
                             else recommendation (last filter_recommendations)
                 | None \<Rightarrow> recommendation (last filter_recommendations));
          topAreaFt = js_or (optional_topSqFt surfaceArea) (JNum (Fin 0));
          rec = (if js_lt topAreaFt (Fin 1.5) \<and> js_lt volumeGallons (Fin 20)
                 then ''5-10 GPH sponge filter ideal for shallow tanks with small surface area''
                 else if js_gt topAreaFt (Fin 6)
                 then rec @ '' + surface skimmer for large surface area''
                 else if js_lt topAreaFt (Fin 3) \<and> js_gt volumeGallons (Fin 30)
                 then rec @ '' - consider adding powerhead for better circulation in tall/deep tanks''
                 else rec)
      in Value (JStr rec))"

definition createFilterStrategy :: strategy where
  "createFilterStrategy =
     EquipmentStrategy ''volume'' filter_recommendations (Some filter_extractor)"

definition heater_recommendations :: "band list" where
  "heater_recommendations =
     [by_volume (Fin 10) ''50-100W submersible heater'',
      by_volume (Fin 20) ''100-150W submersible heater'',
      by_volume (Fin 40) ''150-200W submersible heater'',
      by_volume (Fin 75) ''200-300W submersible heater'',
      by_volume (Fin 125) ''300-400W submersible heater'',
      by_volume (Fin 200) ''400-600W submersible heater'',
      by_volume PInf ''600W+ submersible or inline heater'']"

definition createHeaterStrategy :: strategy where
  "createHeaterStrategy = EquipmentStrategy ''volume'' heater_recommendations None"

definition chiller_recommendations :: "band list" where
  "chiller_recommendations =
     [by_volume (Fin 20) ''1/10 HP chiller for small tanks in warm climates'',
      by_volume (Fin 75) ''1/4 HP chiller for medium tanks'',
      by_volume (Fin 125) ''1/3 HP chiller for large tanks'',
      by_volume PInf ''1/2 to 1 HP chiller for very large tanks'']"

definition createChillerStrategy :: strategy where
  "createChillerStrategy = EquipmentStrategy ''volume'' chiller_recommendations None"

definition uv_recommendations :: "band list" where
  "uv_recommendations =
     [by_flow (Fin 100) ''5-9W UV sterilizer'',
      by_flow (Fin 200) ''11-18W UV sterilizer'',
      by_flow (Fin 400) ''25-36W UV sterilizer'',
      by_flow PInf ''55W+ UV sterilizer or multiple units'']"

definition createUVSterilizerStrategy :: strategy where
  "createUVSterilizerStrategy = EquipmentStrategy ''flow'' uv_recommendations None"

definition airPump_recommendations :: "band list" where
  "airPump_recommendations =
     [by_area (Fin 2) ''10-30 GPH air pump with single airstone'',
      by_area (Fin 4) ''30-60 GPH air pump with dual airstones'',
      by_area PInf ''60-100 GPH air pump with manifold system'']"

definition createAirPumpStrategy :: strategy where
  "createAirPumpStrategy = EquipmentStrategy ''surfaceArea'' airPump_recommendations None"

definition thermometer_recommendations :: "band list" where
  "thermometer_recommendations =
     [by_volume (Fin 20) ''Digital stick thermometer'',
      by_volume (Fin 75) ''Digital thermometer with external probe'',
      by_volume PInf ''Digital thermometer with multiple probes'']"

definition createThermometerStrategy :: strategy where
  "createThermometerStrategy = EquipmentStrategy ''volume'' thermometer_recommendations None"

definition circulationPump_recommendations :: "band list" where
  "circulationPump_recommendations =
     [by_volume (Fin 20) ''200-400 GPH powerhead'',
      by_volume (Fin 55) ''400-800 GPH powerhead'',
      by_volume (Fin 75) ''800-1200 GPH powerhead or multiple units'',
      by_volume PInf ''1200+ GPH powerhead or multiple units'']"

definition createCirculationPumpStrategy :: strategy where
  "createCirculationPumpStrategy =
     EquipmentStrategy ''dimensions'' circulationPump_recommendations None"

definition ato_recommendations :: "band list" where
  "ato_recommendations =
     [by_area (Fin 2) ''1-2 gallon reservoir with small pump'',
      by_area (Fin 4) ''2-5 gallon reservoir with medium pump'',
      by_area PInf ''5+ gallon reservoir with large pump'']"

definition createATOStrategy :: strategy where
  "createATOStrategy = EquipmentStrategy ''surfaceArea'' ato_recommendations None"

section \<open>EquipmentRecommender\<close>

definition strategies :: "string \<rightharpoonup> strategy" where
  "strategies =
     [''filter'' \<mapsto> createFilterStrategy,
      ''heater'' \<mapsto> createHeaterStrategy,
      ''chiller'' \<mapsto> createChillerStrategy,
      ''uvSterilizer'' \<mapsto> createUVSterilizerStrategy,
      ''airPump'' \<mapsto> createAirPumpStrategy,
      ''thermometer'' \<mapsto> createThermometerStrategy,
      ''circulationPump'' \<mapsto> createCirculationPumpStrategy,
      ''ato'' \<mapsto> createATOStrategy]"

definition recommender_getRecommendation :: "string \<Rightarrow> jsval list \<Rightarrow> error + string" where
  "recommender_getRecommendation equipmentType params =
     (case strategies equipmentType of
        None \<Rightarrow> Inr ''--''
      | Some strategy \<Rightarrow> strategy_getRecommendation strategy params)"

definition getFilterRecommendation :: "jsval \<Rightarrow> jsval \<Rightarrow> error + string" where
  "getFilterRecommendation volumeGallons surfaceArea =
     recommender_getRecommendation ''filter'' [volumeGallons, surfaceArea]"

definition getHeaterRecommendation :: "jsval \<Rightarrow> error + string" where
  "getHeaterRecommendation volumeGallons =
     recommender_getRecommendation ''heater'' [volumeGallons]"

definition getChillerRecommendation :: "jsval \<Rightarrow> error + string" where
  "getChillerRecommendation volumeGallons =
     recommender_getRecommendation ''chiller'' [volumeGallons]"

definition getUVSterilizerRecommendation :: "jsval \<Rightarrow> error + string" where
  "getUVSterilizerRecommendation filterFlow =
     recommender_getRecommendation ''uvSterilizer''
       [JNum (Fin 0), JNull, js_or filterFlow (JNum (Fin 300))]"

definition getAirPumpRecommendation :: "jsval \<Rightarrow> error + string" where
  "getAirPumpRecommendation surfaceArea =
     recommender_getRecommendation ''airPump'' [JNum (Fin 0), surfaceArea]"

definition getThermometerRecommendation :: "jsval \<Rightarrow> error + string" where
  "getThermometerRecommendation volumeGallons =
     recommender_getRecommendation ''thermometer'' [volumeGallons]"

definition getCirculationPumpRecommendation :: "jsval \<Rightarrow> jsval \<Rightarrow> jsval \<Rightarrow> error + string" where
  "getCirculationPumpRecommendation volumeGallons length' width =
     recommender_getRecommendation ''circulationPump'' [volumeGallons, JNull, length', width]"

definition getATORcommendation :: "jsval \<Rightarrow> error + string" where
  "getATORcommendation surfaceArea =
     recommender_getRecommendation ''ato'' [JNum (Fin 0), surfaceArea]"

definition estimateFilterFlow :: "real \<Rightarrow> real" where
  "estimateFilterFlow volumeGallons =
     (let minFlow = volumeGallons * 3;
          maxFlow = volumeGallons * 5
      in (minFlow + maxFlow) / 2)"

record equipment_recommendations =
  filter' :: string
  heater :: string
  chiller :: string
  uvSterilizer :: string
  airPump :: string
  thermometer :: string
  circulationPump :: string
  ato :: string

text \<open>An exception raised by one entry leaves \<open>getAllRecommendations\<close> at once.\<close>

definition and_then :: "error + 'a \<Rightarrow> ('a \<Rightarrow> error + 'b) \<Rightarrow> error + 'b" where
  "and_then m f = (case m of Inl e \<Rightarrow> Inl e | Inr x \<Rightarrow> f x)"

definition getAllRecommendations ::
  "real \<Rightarrow> real \<Rightarrow> real \<Rightarrow> real \<Rightarrow> surface_area \<Rightarrow> error + equipment_recommendations" where
  "getAllRecommendations length' width height volumeGallons surfaceArea =
     (let filterFlow = estimateFilterFlow volumeGallons
      in and_then (getFilterRecommendation (JNum (Fin volumeGallons)) (JObj surfaceArea)) (\<lambda>r1.
         and_then (getHeaterRecommendation (JNum (Fin volumeGallons))) (\<lambda>r2.
         and_then (getChillerRecommendation (JNum (Fin volumeGallons))) (\<lambda>r3.
         and_then (getUVSterilizerRecommendation (JNum (Fin filterFlow))) (\<lambda>r4.
         and_then (getAirPumpRecommendation (JObj surfaceArea)) (\<lambda>r5.
         and_then (getThermometerRecommendation (JNum (Fin volumeGallons))) (\<lambda>r6.
         and_then (getCirculationPumpRecommendation (JNum (Fin volumeGallons))
                     (JNum (Fin length')) (JNum (Fin width))) (\<lambda>r7.
         and_then (getATORcommendation (JObj surfaceArea)) (\<lambda>r8.
         Inr \<lparr> filter' = r1, heater = r2, chiller = r3, uvSterilizer = r4, airPump = r5,
               thermometer = r6, circulationPump = r7, ato = r8 \<rparr>)))))))))"

section \<open>The rules of the specification\<close>

text \<open>
  The lookup rule in the words of the specification: scan the bands in order and return
  the first band whose bound is at least the observed value. \<open>lookup_text\<close> is the text
  of that band, when there is one.
\<close>

fun first_band :: "real \<Rightarrow> band list \<Rightarrow> band option" where
  "first_band x [] = None"
| "first_band x (b # bs) = (if num_le (Fin x) (bound b) then Some b else first_band x bs)"

definition lookup_text :: "real \<Rightarrow> band list \<Rightarrow> string option" where
  "lookup_text x bands = map_option recommendation (first_band x bands)"

text \<open>
  The composite filter rule in the words of the specification: the volume-band text,
  replaced by the sponge-filter text when area < 1.5 and volume < 20, else followed by the
  skimmer suffix when area > 6, else by the powerhead suffix when area < 3 and
  volume > 30.
\<close>

definition spec_filter_text :: "real \<Rightarrow> real \<Rightarrow> string" where
  "spec_filter_text v area =
     (let band_text = (case first_band v filter_recommendations of
                         Some b \<Rightarrow> recommendation b | None \<Rightarrow> ''--'')
      in if area < 1.5 \<and> v < 20
         then ''5-10 GPH sponge filter ideal for shallow tanks with small surface area''
         else if area > 6 then band_text @ '' + surface skimmer for large surface area''
         else if area < 3 \<and> v > 30
         then band_text @ '' - consider adding powerhead for better circulation in tall/deep tanks''
         else band_text)"

section \<open>Volume and unit conversion\<close>

text \<open>
  C1. \<open>calculateVolume\<close> returns \<open>(length * 2.54) * (width * 2.54) * (height * 2.54) / 1000\<close>
  litres for all dimensions (in particular for all positive ones); for the 48 x 24 x 24 inch
  tank this is 453.1 litres to one decimal, and \<open>convertToGallons\<close> of it is 119.7 gallons
  to one decimal.
\<close>

theorem calculateVolume_formula:
  "calculateVolume l w h = (l * 2.54) * (w * 2.54) * (h * 2.54) / 1000
   \<and> \<bar>calculateVolume 48 24 24 - 453.1\<bar> < 0.05
   \<and> \<bar>convertToGallons (calculateVolume 48 24 24) - 119.7\<bar> < 0.05"
  by (simp add: calculateVolume_def convertToGallons_def INCHES_TO_CM_def
      GALLONS_TO_LITERS_def Let_def)

text \<open>
  C5 (as stated in the specification): the round trip through litres scales a volume by the
  product of the two declared constants. This fails: at one gallon the round trip returns
  one gallon, which differs from that product.
\<close>

theorem roundtrip_scaled_counterexample:
  "convertToGallons (convertToLiters 1) = 1
   \<and> convertToGallons (convertToLiters 1) \<noteq> 1 * (GALLONS_TO_LITERS * LITERS_TO_GALLONS)"
  by (simp add: convertToGallons_def convertToLiters_def GALLONS_TO_LITERS_def
      LITERS_TO_GALLONS_def)

text \<open>
  C5 (amended): the two declared constants 0.264172 and 3.78541 are not exact reciprocals,
  but both conversions use only the first one (\<open>convertToGallons\<close> multiplies by it,
  \<open>convertToLiters\<close> divides by it), so the round trip through litres returns every volume
  unchanged.
\<close>

theorem roundtrip_exact:
  "GALLONS_TO_LITERS = 0.264172 \<and> LITERS_TO_GALLONS = 3.78541
   \<and> GALLONS_TO_LITERS * LITERS_TO_GALLONS = 0.99999933052
   \<and> GALLONS_TO_LITERS * LITERS_TO_GALLONS \<noteq> 1
   \<and> convertToGallons liters = liters * 0.264172
   \<and> convertToLiters g = g / 0.264172
   \<and> convertToGallons (convertToLiters g) = g"
  by (simp add: convertToGallons_def convertToLiters_def GALLONS_TO_LITERS_def
      LITERS_TO_GALLONS_def)

section \<open>Glass thickness\<close>

text \<open>
  C3. For every depth and span, \<open>getThicknessForDimensions\<close> is the base thickness of the
  depth step table (3, 5, 6, 8, 10, 12 at the bounds 12, 15, 24, 30, 36) plus 2 when the
  span exceeds 48 and another 2 when it exceeds 60, capped at 12. At depth 36 and span 72
  this is 10 + 4 = 14 capped to 12; the label of such a tank is the 12mm+ one and its
  safety note is the professional-consultation one.
\<close>

theorem getThicknessForDimensions_formula:
  "getThicknessForDimensions depth panel =
     min ((if depth \<le> 12 then 3 else if depth \<le> 15 then 5 else if depth \<le> 24 then 6
           else if depth \<le> 30 then 8 else if depth \<le> 36 then 10 else 12)
          + (if panel > 48 then 2 else 0) + (if panel > 60 then 2 else 0)) 12
   \<and> getThicknessForDimensions 36 72 = min (10 + 2 + 2) 12
   \<and> getThicknessForDimensions 36 72 = 12
   \<and> getRecommendation 72 24 36 = ''12mm+ (extra large tanks)''
   \<and> take 5 (getRecommendation 72 24 36) = ''12mm+''
   \<and> safetyNote (getDetailedRecommendation 72 24 36) =
       ''Consider professional consultation for tanks over 36\" deep or panels over 5' long.''"
  by (simp add: getThicknessForDimensions_def getRecommendation_def
      getDetailedRecommendation_def recommendations_def Let_def)

lemma find_row:
  "find (\<lambda>rec. thickness rec = t) recommendations =
     (if t = 3 then Some (recommendations ! 0) else if t = 5 then Some (recommendations ! 1)
      else if t = 6 then Some (recommendations ! 2) else if t = 8 then Some (recommendations ! 3)
      else if t = 10 then Some (recommendations ! 4) else if t = 12 then Some (recommendations ! 5)
      else None)"
  by (simp add: recommendations_def)

lemma thickness_values:
  "getThicknessForDimensions h m \<in> {3, 5, 6, 7, 8, 9, 10, 12}"
  by (simp add: getThicknessForDimensions_def Let_def)

lemma thickness_9: "getThicknessForDimensions h m = 9 \<Longrightarrow> m > 60"
  by (simp add: getThicknessForDimensions_def Let_def split: if_splits)

lemma thickness_wide: "m > 60 \<Longrightarrow> getThicknessForDimensions h m \<in> {7, 9, 10, 12}"
  by (simp add: getThicknessForDimensions_def Let_def)

lemma label_of_row:
  "(case find (\<lambda>rec. thickness rec = t) recommendations of
      Some r \<Rightarrow> description r | None \<Rightarrow> description (last recommendations)) =
     (if t = 3 then ''3mm (for nano tanks only)''
      else if t = 5 then ''5mm (small tanks)''
      else if t = 6 then ''6mm (small-medium tanks)''
      else if t = 8 then ''8mm (medium tanks)''
      else if t = 10 then ''10mm (large tanks)''
      else ''12mm+ (extra large tanks)'')"
  unfolding find_row by (simp add: recommendations_def)

text \<open>
  C9 (as stated in the specification): a computed thickness of 9 matches no table row, so
  the label falls back to the 12mm+ description. This fails for the 72 x 24 x 15 tank: its
  thickness is 9, no row has thickness 9, and the label is the 10mm description.
\<close>

theorem label_fallback_counterexample:
  "getThicknessForDimensions 15 (max 72 24) = 9
   \<and> find (\<lambda>rec. thickness rec = 9) recommendations = None
   \<and> getRecommendation 72 24 15 = ''10mm (large tanks)''
   \<and> getRecommendation 72 24 15 \<noteq> ''12mm+ (extra large tanks)''"
  by (simp add: getThicknessForDimensions_def getRecommendation_def recommendations_def Let_def)

text \<open>
  C9 (amended): for every tank, when the step-function thickness of (height, longest
  panel) is a thickness of the table, the label is the description of that row. The
  thickness matches no row exactly when it is 7 or 9; then the label is the 10mm
  description when the longest panel exceeds 60 (the thickness is raised to at least 10
  for such panels, which covers every tank of thickness 9), and the 12mm+ description of
  the last row otherwise.
\<close>

theorem getRecommendation_label:
  "getRecommendation l w h =
     (case find (\<lambda>rec. thickness rec = getThicknessForDimensions h (max l w)) recommendations of
        Some row \<Rightarrow> description row
      | None \<Rightarrow> if max l w > 60 then ''10mm (large tanks)'' else ''12mm+ (extra large tanks)'')
   \<and> (find (\<lambda>rec. thickness rec = getThicknessForDimensions h (max l w)) recommendations = None)
       = (getThicknessForDimensions h (max l w) = 7 \<or> getThicknessForDimensions h (max l w) = 9)
   \<and> \<not> (getThicknessForDimensions h (max l w) = 9 \<and> max l w \<le> 60)"
proof -
  define m where "m = max l w"
  define t where "t = getThicknessForDimensions h m"
  have tv: "t \<in> {3, 5, 6, 7, 8, 9, 10, 12}"
    unfolding t_def by (rule thickness_values)
  have wide: "m > 60 \<Longrightarrow> t \<in> {7, 9, 10, 12}"
    unfolding t_def by (rule thickness_wide)
  have nine: "t = 9 \<Longrightarrow> m > 60"
    unfolding t_def by (rule thickness_9)
  have lbl: "getRecommendation l w h =
      (case find (\<lambda>rec. thickness rec = (if m > 60 then max t 10 else t)) recommendations of
         Some r \<Rightarrow> description r | None \<Rightarrow> description (last recommendations))"
    by (simp add: getRecommendation_def Let_def m_def t_def)
  have 1: "getRecommendation l w h =
     (case find (\<lambda>rec. thickness rec = t) recommendations of
        Some row \<Rightarrow> description row
      | None \<Rightarrow> if m > 60 then ''10mm (large tanks)'' else ''12mm+ (extra large tanks)'')"
  proof (cases "m > 60")
    case True
    with wide have "t \<in> {7, 9, 10, 12}" by simp
    then show ?thesis
      unfolding lbl label_of_row using True by (auto simp: find_row recommendations_def)
  next
    case False
    then show ?thesis
      unfolding lbl label_of_row using tv by (auto simp: find_row recommendations_def)
  qed
  have 2: "(find (\<lambda>rec. thickness rec = t) recommendations = None) = (t = 7 \<or> t = 9)"
    unfolding find_row using tv by auto
  have 3: "\<not> (t = 9 \<and> m \<le> 60)"
    using nine by auto
  show ?thesis using 1 2 3 unfolding m_def t_def by blast
qed

theorem getRecommendation_label_witness:
  "getThicknessForDimensions 15 (max 54 24) = 7
   \<and> getRecommendation 54 24 15 = ''12mm+ (extra large tanks)''
   \<and> getThicknessForDimensions 12 (max 72 24) = 7
   \<and> getRecommendation 72 24 12 = ''10mm (large tanks)''
   \<and> getThicknessForDimensions 24 (max 48 24) = 6
   \<and> getRecommendation 48 24 24 = ''6mm (small-medium tanks)''"
  using getRecommendation_label [of 54 24 15] getRecommendation_label [of 72 24 12]
    getRecommendation_label [of 48 24 24]
  by (simp add: getThicknessForDimensions_def find_row recommendations_def Let_def)

section \<open>Equipment recommendations\<close>

lemma band_prop_own: "band_prop rec (getCriteriaProperty rec) = bound rec"
  by (cases "band_key rec") (simp_all add: band_prop_def getCriteriaProperty_def)

lemma find_first_band:
  "find (\<lambda>rec. js_le (JNum (Fin x)) (band_prop rec (getCriteriaProperty rec))) bands
     = first_band x bands"
  by (induction bands) (simp_all add: band_prop_own js_le_def)

lemma first_band_catch_all:
  "bands \<noteq> [] \<Longrightarrow> bound (last bands) = PInf \<Longrightarrow> \<exists>b \<in> set bands. first_band x bands = Some b"
  by (induction bands) (auto split: if_splits)

lemma lookup_entry:
  assumes "strategy_type s \<noteq> ''dimensions''"
    and "criteriaExtractor s params = Value (JNum (Fin x))"
    and "strategy_recommendations s = bands"
    and "bands \<noteq> []" and "bound (last bands) = PInf"
    and "\<forall>b \<in> set bands. recommendation b \<noteq> ''--''"
  shows "\<exists>t. strategy_getRecommendation s params = Inr t \<and> lookup_text x bands = Some t
             \<and> t \<noteq> ''--''"
proof -
  obtain b where b: "b \<in> set bands" "first_band x bands = Some b"
    using first_band_catch_all [OF assms(4,5)] by blast
  have "strategy_getRecommendation s params = Inr (recommendation b)"
    using assms(1,2,3) b(2) by (simp add: strategy_getRecommendation_def find_first_band)
  moreover have "lookup_text x bands = Some (recommendation b)"
    using b(2) by (simp add: lookup_text_def)
  moreover have "recommendation b \<noteq> ''--''"
    using assms(6) b(1) by blast
  ultimately show ?thesis by blast
qed

lemma strategies_simps:
  "strategies ''filter'' = Some createFilterStrategy"
  "strategies ''heater'' = Some createHeaterStrategy"
  "strategies ''chiller'' = Some createChillerStrategy"
  "strategies ''uvSterilizer'' = Some createUVSterilizerStrategy"
  "strategies ''airPump'' = Some createAirPumpStrategy"
  "strategies ''thermometer'' = Some createThermometerStrategy"
  "strategies ''circulationPump'' = Some createCirculationPumpStrategy"
  "strategies ''ato'' = Some createATOStrategy"
  by (simp_all add: strategies_def)

lemmas extractor_defs =
  EquipmentStrategy_def getDefaultExtractor_def param_def js_or_def

lemma heater_entry:
  "\<exists>t. getHeaterRecommendation (JNum (Fin v)) = Inr t
       \<and> lookup_text v heater_recommendations = Some t \<and> t \<noteq> ''--''"
  unfolding getHeaterRecommendation_def recommender_getRecommendation_def strategies_simps
    option.case
  by (rule lookup_entry)
     (simp_all add: createHeaterStrategy_def extractor_defs heater_recommendations_def
        by_volume_def)

lemma chiller_entry:
  "\<exists>t. getChillerRecommendation (JNum (Fin v)) = Inr t
       \<and> lookup_text v chiller_recommendations = Some t \<and> t \<noteq> ''--''"
  unfolding getChillerRecommendation_def recommender_getRecommendation_def strategies_simps
    option.case
  by (rule lookup_entry)
     (simp_all add: createChillerStrategy_def extractor_defs chiller_recommendations_def
        by_volume_def)

lemma thermometer_entry:
  "\<exists>t. getThermometerRecommendation (JNum (Fin v)) = Inr t
       \<and> lookup_text v thermometer_recommendations = Some t \<and> t \<noteq> ''--''"
  unfolding getThermometerRecommendation_def recommender_getRecommendation_def strategies_simps
    option.case
  by (rule lookup_entry)
     (simp_all add: createThermometerStrategy_def extractor_defs
        thermometer_recommendations_def by_volume_def)

lemma uvSterilizer_entry:
  "\<exists>t. getUVSterilizerRecommendation (JNum (Fin f)) = Inr t
       \<and> lookup_text (if f = 0 then 300 else f) uv_recommendations = Some t \<and> t \<noteq> ''--''"
  unfolding getUVSterilizerRecommendation_def recommender_getRecommendation_def strategies_simps
    option.case
  by (rule lookup_entry)
     (simp_all add: createUVSterilizerStrategy_def extractor_defs uv_recommendations_def
        by_flow_def)

lemma airPump_entry:
  "\<exists>t. getAirPumpRecommendation (JObj sa) = Inr t
       \<and> lookup_text (topSqFt sa) airPump_recommendations = Some t \<and> t \<noteq> ''--''"
  unfolding getAirPumpRecommendation_def recommender_getRecommendation_def strategies_simps
    option.case
  by (rule lookup_entry)
     (simp_all add: createAirPumpStrategy_def extractor_defs airPump_recommendations_def
        by_area_def)

lemma ato_entry:
  "\<exists>t. getATORcommendation (JObj sa) = Inr t
       \<and> lookup_text (topSqFt sa) ato_recommendations = Some t \<and> t \<noteq> ''--''"
  unfolding getATORcommendation_def recommender_getRecommendation_def strategies_simps
    option.case
  by (rule lookup_entry)
     (simp_all add: createATOStrategy_def extractor_defs ato_recommendations_def by_area_def)

text \<open>
  The circulation pump: the default extractor of a \<open>dimensions\<close> strategy reads the
  arguments at the positions 0, 3 and 4. The recommender passes volume, null, length,
  width, so the strategy sees the width as its length and \<open>undefined\<close> as its width, and
  the comparison with \<open>undefined * 1.5\<close> is false.
\<close>

lemma circulationPump_extractor:
  "criteriaExtractor createCirculationPumpStrategy [v, JNull, l, w] = Array3 v w JUndefined"
  by (simp add: createCirculationPumpStrategy_def extractor_defs)

lemma find_volume_band:
  "\<forall>b \<in> set bands. band_key b = MaxVolume \<Longrightarrow>
   find (\<lambda>rec. js_le (JNum (Fin x)) (band_prop rec MaxVolume)) bands = first_band x bands"
  by (induction bands) (simp_all add: band_prop_def js_le_def)

lemma circulationPump_entry:
  "\<exists>t. getCirculationPumpRecommendation (JNum (Fin v)) l w = Inr t
       \<and> lookup_text v circulationPump_recommendations = Some t \<and> t \<noteq> ''--''"
proof -
  let ?bands = circulationPump_recommendations
  obtain b where b: "b \<in> set ?bands" "first_band v ?bands = Some b"
    using first_band_catch_all [of ?bands v]
    by (auto simp: circulationPump_recommendations_def by_volume_def)
  have keys: "\<forall>b \<in> set ?bands. band_key b = MaxVolume"
    by (simp add: circulationPump_recommendations_def by_volume_def)
  have "getCirculationPumpRecommendation (JNum (Fin v)) l w = Inr (recommendation b)"
    unfolding getCirculationPumpRecommendation_def recommender_getRecommendation_def
      strategies_simps option.case strategy_getRecommendation_def circulationPump_extractor
    by (simp add: createCirculationPumpStrategy_def EquipmentStrategy_def dimensions_text_def
        find_volume_band [OF keys] b(2) js_gt_def num_gt_def)
  moreover have "lookup_text v ?bands = Some (recommendation b)"
    using b(2) by (simp add: lookup_text_def)
  moreover have "recommendation b \<noteq> ''--''"
    using b(1) by (auto simp: circulationPump_recommendations_def by_volume_def)
  ultimately show ?thesis by blast
qed

text \<open>
  The filter: its extractor returns the composed text, which the strategy then compares
  with the bounds as a criteria value. The text is not a number, so no band matches and
  the text of the last band is returned.
\<close>

lemma filter_extractor_eq:
  "filter_extractor [JNum (Fin v), JObj sa] = Value (JStr (spec_filter_text v (topSqFt sa)))"
  by (simp add: filter_extractor_def spec_filter_text_def param_def js_or_def js_lt_def js_gt_def
      num_gt_def js_le_def band_prop_def filter_recommendations_def by_volume_def Let_def)

lemma dropWhile_keeps: "c \<in> set xs \<Longrightarrow> \<not> P c \<Longrightarrow> c \<in> set (dropWhile P xs)"
  by (induction xs) auto

lemma string_to_number_word:
  assumes "c \<in> set s" "\<not> is_space c" "\<not> is_digit c"
  shows "string_to_number s = NaN"
proof -
  have "c \<in> set (trim s)"
    unfolding trim_def using assms(1,2) by (simp add: dropWhile_keeps)
  then have "trim s \<noteq> []" and "\<not> list_all is_digit (trim s)"
    using assms(3) by (auto simp: list_all_iff)
  then show ?thesis
    by (simp add: string_to_number_def Let_def)
qed

lemma band_text_G:
  "CHR ''G'' \<in> set (case first_band v filter_recommendations of
                         Some b \<Rightarrow> recommendation b | None \<Rightarrow> ''--'')"
  by (simp add: filter_recommendations_def by_volume_def)

lemma filter_text_G: "CHR ''G'' \<in> set (spec_filter_text v a)"
  using band_text_G [of v] by (simp add: spec_filter_text_def Let_def)

lemma filter_text_nan: "string_to_number (spec_filter_text v a) = NaN"
  by (rule string_to_number_word [OF filter_text_G]) (simp_all add: is_space_def is_digit_def)

lemma find_nan:
  "find (\<lambda>rec. js_le (JStr (spec_filter_text v a)) (f rec)) bands = None"
  by (induction bands) (simp_all add: js_le_def filter_text_nan)

lemma filter_last: "last_or_placeholder filter_recommendations =
    ''200+ GPH canister filter or sump system''"
  by (simp add: last_or_placeholder_def filter_recommendations_def by_volume_def)

lemma filter_entry:
  "getFilterRecommendation (JNum (Fin v)) (JObj sa) =
     Inr ''200+ GPH canister filter or sump system''"
proof -
  have "strategy_getRecommendation createFilterStrategy [JNum (Fin v), JObj sa] =
      Inr (last_or_placeholder filter_recommendations)"
    by (simp add: strategy_getRecommendation_def createFilterStrategy_def EquipmentStrategy_def
        filter_extractor_eq find_nan)
  then show ?thesis
    by (simp add: getFilterRecommendation_def recommender_getRecommendation_def
        strategies_simps filter_last)
qed

lemma getAllRecommendations_entries:
  "\<exists>t2 t3 t4 t5 t6 t7 t8.
     getAllRecommendations l w h v sa =
       Inr \<lparr> filter' = ''200+ GPH canister filter or sump system'', heater = t2, chiller = t3,
             uvSterilizer = t4, airPump = t5, thermometer = t6, circulationPump = t7,
             ato = t8 \<rparr>
     \<and> lookup_text v heater_recommendations = Some t2 \<and> t2 \<noteq> ''--''
     \<and> lookup_text v chiller_recommendations = Some t3 \<and> t3 \<noteq> ''--''
     \<and> lookup_text (if v = 0 then 300 else 4 * v) uv_recommendations = Some t4 \<and> t4 \<noteq> ''--''
     \<and> lookup_text (topSqFt sa) airPump_recommendations = Some t5 \<and> t5 \<noteq> ''--''
     \<and> lookup_text v thermometer_recommendations = Some t6 \<and> t6 \<noteq> ''--''
     \<and> lookup_text v circulationPump_recommendations = Some t7 \<and> t7 \<noteq> ''--''
     \<and> lookup_text (topSqFt sa) ato_recommendations = Some t8 \<and> t8 \<noteq> ''--''"
proof -
  obtain t2 where t2: "getHeaterRecommendation (JNum (Fin v)) = Inr t2"
    "lookup_text v heater_recommendations = Some t2" "t2 \<noteq> ''--''"
    using heater_entry by blast
  obtain t3 where t3: "getChillerRecommendation (JNum (Fin v)) = Inr t3"
    "lookup_text v chiller_recommendations = Some t3" "t3 \<noteq> ''--''"
    using chiller_entry by blast
  obtain t4 where t4: "getUVSterilizerRecommendation (JNum (Fin (estimateFilterFlow v))) = Inr t4"
    "lookup_text (if estimateFilterFlow v = 0 then 300 else estimateFilterFlow v)
       uv_recommendations = Some t4" "t4 \<noteq> ''--''"
    using uvSterilizer_entry by blast
  obtain t5 where t5: "getAirPumpRecommendation (JObj sa) = Inr t5"
    "lookup_text (topSqFt sa) airPump_recommendations = Some t5" "t5 \<noteq> ''--''"
    using airPump_entry by blast
  obtain t6 where t6: "getThermometerRecommendation (JNum (Fin v)) = Inr t6"
    "lookup_text v thermometer_recommendations = Some t6" "t6 \<noteq> ''--''"
    using thermometer_entry by blast
  obtain t7 where t7:
    "getCirculationPumpRecommendation (JNum (Fin v)) (JNum (Fin l)) (JNum (Fin w)) = Inr t7"
    "lookup_text v circulationPump_recommendations = Some t7" "t7 \<noteq> ''--''"
    using circulationPump_entry by blast
  obtain t8 where t8: "getATORcommendation (JObj sa) = Inr t8"
    "lookup_text (topSqFt sa) ato_recommendations = Some t8" "t8 \<noteq> ''--''"
    using ato_entry by blast
  have flow: "estimateFilterFlow v = 4 * v" "(estimateFilterFlow v = 0) = (v = 0)"
    by (simp_all add: estimateFilterFlow_def Let_def)
  have "getAllRecommendations l w h v sa =
       Inr \<lparr> filter' = ''200+ GPH canister filter or sump system'', heater = t2, chiller = t3,
             uvSterilizer = t4, airPump = t5, thermometer = t6, circulationPump = t7,
             ato = t8 \<rparr>"
    unfolding getAllRecommendations_def Let_def filter_entry t2(1) t3(1) t4(1) t5(1) t6(1)
      t7(1) t8(1) and_then_def
    by simp
  moreover have "lookup_text (if v = 0 then 300 else 4 * v) uv_recommendations = Some t4"
    using t4(2) unfolding flow by (simp split: if_splits)
  ultimately show ?thesis
    using t2(2,3) t3(2,3) t4(3) t5(2,3) t6(2,3) t7(2,3) t8(2,3) by blast
qed

text \<open>
  C4 (as stated in the specification): every strategy returns the text of the first band
  whose bound reaches the criterion value. This fails for the filter: for a 7.5 gallon
  tank with one square foot of surface the first band reaching 7.5 is the 10-20 GPH one,
  the filter's own rule composes the sponge-filter text, and the strategy returns the text
  of the last band.
\<close>

theorem lookup_rule_counterexample:
  "lookup_text 7.5 filter_recommendations = Some ''10-20 GPH canister or small HOB filter''
   \<and> topSqFt (calculateSurfaceArea 12 12 12) = 1
   \<and> filter_extractor [JNum (Fin 7.5), JObj (calculateSurfaceArea 12 12 12)] =
       Value (JStr ''5-10 GPH sponge filter ideal for shallow tanks with small surface area'')
   \<and> find (\<lambda>rec. criteria_le
                 (filter_extractor [JNum (Fin 7.5), JObj (calculateSurfaceArea 12 12 12)])
                 (band_prop rec (getCriteriaProperty rec))) filter_recommendations = None
   \<and> getFilterRecommendation (JNum (Fin 7.5)) (JObj (calculateSurfaceArea 12 12 12)) =
       Inr ''200+ GPH canister filter or sump system''"
proof -
  have "find (\<lambda>rec. criteria_le
                 (filter_extractor [JNum (Fin 7.5), JObj (calculateSurfaceArea 12 12 12)])
                 (band_prop rec (getCriteriaProperty rec))) filter_recommendations = None"
    by (simp add: filter_extractor_eq find_nan)
  then show ?thesis
    by (simp add: filter_entry filter_extractor_eq spec_filter_text_def lookup_text_def
        filter_recommendations_def by_volume_def calculateSurfaceArea_def Let_def)
qed

text \<open>
  C4 (amended): for every volume, surface area and dimensions, \<open>getAllRecommendations\<close>
  returns a complete record in which the heater, chiller and thermometer entries are the
  text of the first band whose bound reaches the volume, the air pump and auto-top-off
  entries that of the first band reaching the top area in square feet, the UV entry that
  of the first band reaching the flow (four times the volume, or 300 when that is 0), and
  the circulation pump entry begins with the text of the first band reaching the volume.
  None of the eight entries, the filter's included, is the placeholder. The heater
  strategy at 50 gallons returns the 200-300W text.
\<close>

theorem lookup_rule:
  "\<exists>r sfx. getAllRecommendations l w h v sa = Inr r
     \<and> lookup_text v heater_recommendations = Some (heater r)
     \<and> lookup_text v chiller_recommendations = Some (chiller r)
     \<and> lookup_text v thermometer_recommendations = Some (thermometer r)
     \<and> lookup_text (topSqFt sa) airPump_recommendations = Some (airPump r)
     \<and> lookup_text (topSqFt sa) ato_recommendations = Some (ato r)
     \<and> lookup_text (if estimateFilterFlow v = 0 then 300 else estimateFilterFlow v)
           uv_recommendations = Some (uvSterilizer r)
     \<and> map_option (\<lambda>t. t @ sfx) (lookup_text v circulationPump_recommendations) =
           Some (circulationPump r)
     \<and> filter' r \<noteq> ''--'' \<and> heater r \<noteq> ''--'' \<and> chiller r \<noteq> ''--''
     \<and> uvSterilizer r \<noteq> ''--'' \<and> airPump r \<noteq> ''--'' \<and> thermometer r \<noteq> ''--''
     \<and> circulationPump r \<noteq> ''--'' \<and> ato r \<noteq> ''--''
     \<and> getHeaterRecommendation (JNum (Fin 50)) = Inr ''200-300W submersible heater''"
proof -
  obtain t2 t3 t4 t5 t6 t7 t8 where r:
    "getAllRecommendations l w h v sa =
       Inr \<lparr> filter' = ''200+ GPH canister filter or sump system'', heater = t2, chiller = t3,
             uvSterilizer = t4, airPump = t5, thermometer = t6, circulationPump = t7,
             ato = t8 \<rparr>"
    and t: "lookup_text v heater_recommendations = Some t2" "t2 \<noteq> ''--''"
      "lookup_text v chiller_recommendations = Some t3" "t3 \<noteq> ''--''"
      "lookup_text (if v = 0 then 300 else 4 * v) uv_recommendations = Some t4" "t4 \<noteq> ''--''"
      "lookup_text (topSqFt sa) airPump_recommendations = Some t5" "t5 \<noteq> ''--''"
      "lookup_text v thermometer_recommendations = Some t6" "t6 \<noteq> ''--''"
      "lookup_text v circulationPump_recommendations = Some t7" "t7 \<noteq> ''--''"
      "lookup_text (topSqFt sa) ato_recommendations = Some t8" "t8 \<noteq> ''--''"
    using getAllRecommendations_entries [of l w h v sa] by blast
  have flow: "estimateFilterFlow v = 4 * v"
    by (simp add: estimateFilterFlow_def Let_def)
  have heater50: "getHeaterRecommendation (JNum (Fin 50)) = Inr ''200-300W submersible heater''"
    using heater_entry [of 50]
    by (auto simp: lookup_text_def heater_recommendations_def by_volume_def)
  show ?thesis
    apply (rule exI [of _ "\<lparr> filter' = ''200+ GPH canister filter or sump system'',
             heater = t2, chiller = t3, uvSterilizer = t4, airPump = t5, thermometer = t6,
             circulationPump = t7, ato = t8 \<rparr>"])
    apply (rule exI [of _ "[]"])
    using r t heater50 by (simp add: flow split: if_splits)
qed

text \<open>
  C10 (as stated in the specification): for every volume from 0 on the UV entry is the
  band of the flow 4 x volume. This fails at volume 0: the band of flow 0 is the 5-9W one,
  and the entry is the 25-36W one.
\<close>

theorem uv_flow_counterexample:
  "estimateFilterFlow 0 = 0
   \<and> lookup_text (estimateFilterFlow 0) uv_recommendations = Some ''5-9W UV sterilizer''
   \<and> getUVSterilizerRecommendation (JNum (Fin (estimateFilterFlow 0))) =
       Inr ''25-36W UV sterilizer''
   \<and> getAllRecommendations 12 12 12 0 (calculateSurfaceArea 12 12 12) =
       Inr \<lparr> filter' = ''200+ GPH canister filter or sump system'',
             heater = ''50-100W submersible heater'',
             chiller = ''1/10 HP chiller for small tanks in warm climates'',
             uvSterilizer = ''25-36W UV sterilizer'',
             airPump = ''10-30 GPH air pump with single airstone'',
             thermometer = ''Digital stick thermometer'',
             circulationPump = ''200-400 GPH powerhead'',
             ato = ''1-2 gallon reservoir with small pump'' \<rparr>"
proof -
  have "estimateFilterFlow 0 = 0"
    by (simp add: estimateFilterFlow_def)
  moreover have "lookup_text 0 uv_recommendations = Some ''5-9W UV sterilizer''"
    by (simp add: lookup_text_def uv_recommendations_def by_flow_def)
  moreover have "getUVSterilizerRecommendation (JNum (Fin 0)) = Inr ''25-36W UV sterilizer''"
    using uvSterilizer_entry [of 0]
    by (auto simp: lookup_text_def uv_recommendations_def by_flow_def)
  moreover have "getAllRecommendations 12 12 12 0 (calculateSurfaceArea 12 12 12) =
       Inr \<lparr> filter' = ''200+ GPH canister filter or sump system'',
             heater = ''50-100W submersible heater'',
             chiller = ''1/10 HP chiller for small tanks in warm climates'',
             uvSterilizer = ''25-36W UV sterilizer'',
             airPump = ''10-30 GPH air pump with single airstone'',
             thermometer = ''Digital stick thermometer'',
             circulationPump = ''200-400 GPH powerhead'',
             ato = ''1-2 gallon reservoir with small pump'' \<rparr>"
    using getAllRecommendations_entries [of 12 12 12 0 "calculateSurfaceArea 12 12 12"]
    by (auto simp: lookup_text_def heater_recommendations_def chiller_recommendations_def
        uv_recommendations_def airPump_recommendations_def thermometer_recommendations_def
        circulationPump_recommendations_def ato_recommendations_def by_volume_def by_flow_def
        by_area_def calculateSurfaceArea_def Let_def)
  ultimately show ?thesis by simp
qed

text \<open>
  C10 (amended): the estimated flow is the midpoint of 3 x volume and 5 x volume, that
  is 4 x volume, and for every volume other than 0 the UV entry of
  \<open>getAllRecommendations\<close> is the text of the first band whose bound reaches that flow; at
  volume 0 the estimate 0 is replaced by the default flow 300.
\<close>

theorem uv_flow:
  "\<exists>r. getAllRecommendations l w h v sa = Inr r
     \<and> estimateFilterFlow v = (v * 3 + v * 5) / 2
     \<and> estimateFilterFlow v = 4 * v
     \<and> lookup_text (if v = 0 then 300 else 4 * v) uv_recommendations = Some (uvSterilizer r)"
proof -
  have "estimateFilterFlow v = (v * 3 + v * 5) / 2" "estimateFilterFlow v = 4 * v"
    by (simp_all add: estimateFilterFlow_def Let_def)
  then show ?thesis
    using getAllRecommendations_entries [of l w h v sa] by fastforce
qed

theorem uv_flow_witness:
  "\<exists>r. getAllRecommendations 48 24 24 119.7 (calculateSurfaceArea 48 24 24) = Inr r
     \<and> uvSterilizer r = ''55W+ UV sterilizer or multiple units''"
  using uv_flow [of 48 24 24 "119.7" "calculateSurfaceArea 48 24 24"]
  by (auto simp: lookup_text_def uv_recommendations_def by_flow_def)

text \<open>
  C6: the circulation pump entry of the 48 x 24 x 24 tank (48 > 1.5 x 24) has no suffix.
  The strategy's extractor hands the width and \<open>undefined\<close> to the rule in the places of
  length and width; given the length and the width, the rule appends the suffix.
\<close>

theorem circulationPump_no_suffix:
  "(48::real) > 24 * 1.5
   \<and> getCirculationPumpRecommendation (JNum (Fin 119.7)) (JNum (Fin 48)) (JNum (Fin 24)) =
       Inr ''1200+ GPH powerhead or multiple units''
   \<and> criteriaExtractor createCirculationPumpStrategy
         [JNum (Fin 119.7), JNull, JNum (Fin 48), JNum (Fin 24)] =
       Array3 (JNum (Fin 119.7)) (JNum (Fin 24)) JUndefined
   \<and> getDimensionsRecommendation circulationPump_recommendations
         (Array3 (JNum (Fin 119.7)) (JNum (Fin 48)) (JNum (Fin 24))) =
       Inr ''1200+ GPH powerhead or multiple units - consider multiple units for even flow in long tanks''"
proof -
  have "getCirculationPumpRecommendation (JNum (Fin 119.7)) (JNum (Fin 48)) (JNum (Fin 24)) =
       Inr ''1200+ GPH powerhead or multiple units''"
    using circulationPump_entry [of "119.7" "JNum (Fin 48)" "JNum (Fin 24)"]
    by (auto simp: lookup_text_def circulationPump_recommendations_def by_volume_def)
  moreover have "getDimensionsRecommendation circulationPump_recommendations
         (Array3 (JNum (Fin 119.7)) (JNum (Fin 48)) (JNum (Fin 24))) =
       Inr ''1200+ GPH powerhead or multiple units - consider multiple units for even flow in long tanks''"
    by (simp add: dimensions_text_def circulationPump_recommendations_def by_volume_def
        js_le_def js_gt_def num_gt_def band_prop_def)
  ultimately show ?thesis
    by (simp add: circulationPump_extractor)
qed

text \<open>
  C8: for a 15 gallon tank with two square feet of surface the composite rule gives the
  unmodified 10-20 GPH band text, which is what the filter's extractor computes; the
  filter recommendation returned is the text of the last band.
\<close>

theorem filter_composite_lost:
  "topSqFt (calculateSurfaceArea 24 12 12) = 2
   \<and> spec_filter_text 15 2 = ''10-20 GPH canister or small HOB filter''
   \<and> filter_extractor [JNum (Fin 15), JObj (calculateSurfaceArea 24 12 12)] =
       Value (JStr ''10-20 GPH canister or small HOB filter'')
   \<and> getFilterRecommendation (JNum (Fin 15)) (JObj (calculateSurfaceArea 24 12 12)) =
       Inr ''200+ GPH canister filter or sump system''"
  by (simp add: filter_entry filter_extractor_eq spec_filter_text_def
      filter_recommendations_def by_volume_def calculateSurfaceArea_def Let_def)

section \<open>Dimension search\<close>

lemma unique_loop_subset:
  "set (unique_loop rs m u s) \<subseteq> set u \<union> set rs"
proof (induction rs arbitrary: u s)
  case Nil
  then show ?case by simp
next
  case (Cons r rs)
  show ?case
    using Cons.IH [of "u @ [r]" "insert (res_width r, res_length r, res_height r) s"]
      Cons.IH [of u s]
    by (auto simp: Let_def)
qed

lemma unique_loop_length:
  "int (length u) < m \<Longrightarrow> int (length (unique_loop rs m u s)) \<le> m"
  by (induction rs arbitrary: u s) (auto simp: Let_def)

lemma unique_loop_distinct:
  "s = (\<lambda>r. (res_width r, res_length r, res_height r)) ` set u \<Longrightarrow>
   distinct (map (\<lambda>r. (res_width r, res_length r, res_height r)) u) \<Longrightarrow>
   distinct (map (\<lambda>r. (res_width r, res_length r, res_height r)) (unique_loop rs m u s))"
proof (induction rs arbitrary: u s)
  case Nil
  then show ?case by simp
next
  case (Cons r rs)
  let ?key = "\<lambda>r. (res_width r, res_length r, res_height r)"
  show ?case
  proof (cases "?key r \<in> s")
    case True
    then show ?thesis using Cons by simp
  next
    case False
    have d: "distinct (map ?key (u @ [r]))"
      using Cons.prems False by auto
    have s: "insert (?key r) s = ?key ` set (u @ [r])"
      using Cons.prems(1) by auto
    show ?thesis
      using False d Cons.IH [OF s d] by (simp add: Let_def)
  qed
qed

lemma range_ints:
  "current \<in> \<int> \<Longrightarrow> x \<in> set (getDimensionRange current max') \<Longrightarrow> x \<in> \<int>"
proof (induction current max' rule: getDimensionRange.induct)
  case (1 current max')
  show ?case
  proof (cases "current \<le> max'")
    case True
    let ?next = "if current < 24 then current + 2
                 else if current < 48 then current + 4 else current + 6"
    have next_int: "?next \<in> \<int>" using "1.prems"(1) by auto
    from "1.prems"(2) True have "x = current \<or> x \<in> set (getDimensionRange ?next max')"
      by (subst (asm) getDimensionRange.simps) simp
    then show ?thesis
      using "1.IH" [OF True next_int] "1.prems"(1) by blast
  next
    case False
    with "1.prems"(2) show ?thesis
      by (subst (asm) getDimensionRange.simps) simp
  qed
qed

lemma Math_round_int: "x \<in> \<int> \<Longrightarrow> real_of_int (Math_round x) = x"
  by (auto simp: Math_round_def Ints_def)

text \<open>The volume in gallons of an entry, from the dimensions the entry carries.\<close>

lemma candidate_within_tolerance:
  assumes "r \<in> set (candidate t w l h)" and "w \<in> \<int>" "l \<in> \<int>" "h \<in> \<int>"
  shows "\<bar>finder_calculateVolume (res_length r) (res_width r) (res_height r) * 0.264172 - t\<bar>
           / t * 100 \<le> tolerancePercent * 100
       \<and> res_percentDifference r =
           toFixed1 (\<bar>finder_calculateVolume (res_length r) (res_width r) (res_height r)
                      * 0.264172 - t\<bar> / t * 100)"
  using assms by (auto simp: candidate_def Let_def Math_round_int split: if_splits)

lemma enumerate_within_tolerance:
  assumes "r \<in> set (enumerate_candidates t cs)"
  shows "\<bar>finder_calculateVolume (res_length r) (res_width r) (res_height r) * 0.264172 - t\<bar>
           / t * 100 \<le> tolerancePercent * 100
       \<and> res_percentDifference r =
           toFixed1 (\<bar>finder_calculateVolume (res_length r) (res_width r) (res_height r)
                      * 0.264172 - t\<bar> / t * 100)"
proof -
  from assms obtain w l h where
    w: "w \<in> set (getDimensionRange minDimension (or_default (maxWidth cs) maxDimension))" and
    l: "l \<in> set (getDimensionRange minDimension (or_default (maxLength cs) maxDimension))" and
    h: "h \<in> set (getDimensionRange 12 (or_default (maxHeight cs) 60))" and
    r: "r \<in> set (candidate t w l h)"
    by (auto simp: enumerate_candidates_def Let_def)
  have "w \<in> \<int>" "l \<in> \<int>" "h \<in> \<int>"
    using range_ints [OF _ w] range_ints [OF _ l] range_ints [OF _ h]
    by (simp_all add: minDimension_def)
  with r show ?thesis by (rule candidate_within_tolerance)
qed

lemma findDimensions_subset:
  "set (findDimensions t cs m) \<subseteq> set (enumerate_candidates t cs)"
  using unique_loop_subset [of "sort_key res_percentDifference (enumerate_candidates t cs)" m "[]" "{}"]
  by (simp add: findDimensions_def getUniqueResults_def Let_def)

text \<open>
  What holds of the result for every cap (in exact arithmetic, for finite bounds): each
  entry is within the tolerance, no two entries share a triple, an empty enumeration
  gives an empty list; and for a cap of at least 1 the list is no longer than the cap.
\<close>

lemma findDimensions_properties:
  "r \<in> set (findDimensions t cs m) \<Longrightarrow>
     \<bar>finder_calculateVolume (res_length r) (res_width r) (res_height r) * 0.264172 - t\<bar>
        / t * 100 \<le> 10"
  "1 \<le> m \<Longrightarrow> int (length (findDimensions t cs m)) \<le> m"
  "distinct (map (\<lambda>r. (res_width r, res_length r, res_height r)) (findDimensions t cs m))"
  "enumerate_candidates t cs = [] \<Longrightarrow> findDimensions t cs m = []"
proof -
  show "r \<in> set (findDimensions t cs m) \<Longrightarrow>
     \<bar>finder_calculateVolume (res_length r) (res_width r) (res_height r) * 0.264172 - t\<bar>
        / t * 100 \<le> 10"
    using enumerate_within_tolerance [of r t cs] findDimensions_subset [of t cs m]
    by (auto simp: tolerancePercent_def)
  show "1 \<le> m \<Longrightarrow> int (length (findDimensions t cs m)) \<le> m"
    using unique_loop_length [of "[]" m] by (simp add: findDimensions_def getUniqueResults_def Let_def)
  show "distinct (map (\<lambda>r. (res_width r, res_length r, res_height r)) (findDimensions t cs m))"
    using unique_loop_distinct [of "{}" "[]"]
    by (simp add: findDimensions_def getUniqueResults_def Let_def)
  show "enumerate_candidates t cs = [] \<Longrightarrow> findDimensions t cs m = []"
    by (simp add: findDimensions_def getUniqueResults_def Let_def)
qed

lemma unique_loop_zero:
  "m \<le> 0 \<Longrightarrow> unique_loop (r # rs) m [] {} = [r]"
  by (simp add: Let_def)

text \<open>
  The search for 20 gallons with the default constraints, evaluated. A candidate is
  within the tolerance only when the product of its dimensions lies between 4158 and 5083
  cubic inches, which decides most of the 26 x 26 x 15 triples at once.
\<close>

lemma range_10_120:
  "getDimensionRange 10 120 = [10, 12, 14, 16, 18, 20, 22, 24, 28, 32, 36, 40, 44, 48, 54, 60,
     66, 72, 78, 84, 90, 96, 102, 108, 114, 120]"
  by (simp add: getDimensionRange.simps)

lemma range_12_60:
  "getDimensionRange 12 60 = [12, 14, 16, 18, 20, 22, 24, 28, 32, 36, 40, 44, 48, 54, 60]"
  by (simp add: getDimensionRange.simps)

lemma gallons_of_product:
  "finder_calculateVolume l w h * 0.264172 = (w * l * h) * (2.54 * 2.54 * 2.54 / 1000 * 0.264172)"
  by (simp add: finder_calculateVolume_def Let_def)

lemma candidate_20_far:
  assumes "w * l * h \<le> 4158 \<or> 5083 \<le> w * l * h"
  shows "candidate 20 w l h = []"
proof -
  define p where "p = w * l * h"
  have "\<not> \<bar>p * (2.54 * 2.54 * 2.54 / 1000 * 0.264172) - 20\<bar> / 20 * 100 \<le> 0.1 * 100"
    using assms unfolding p_def[symmetric] by auto
  then show ?thesis
    unfolding candidate_def gallons_of_product p_def[symmetric] tolerancePercent_def Let_def
    by simp
qed

lemma candidate_20_eval:
  "candidate 20 w l h =
     (if w * l * h \<le> 4158 \<or> 5083 \<le> w * l * h then []
      else (let volume = finder_calculateVolume l w h;
          volumeGallons = volume * 0.264172;
          difference = \<bar>volumeGallons - 20\<bar>;
          percentDifference = (difference / 20) * 100
      in if percentDifference \<le> tolerancePercent * 100
         then [\<lparr> res_width = Math_round w,
                 res_length = Math_round l,
                 res_height = Math_round h,
                 res_volumeGallons = toFixed1 volumeGallons,
                 res_percentDifference = toFixed1 percentDifference,
                 res_aspectRatio = getAspectRatio l w h,
                 res_footprint = Math_round (l * w),
                 res_depth = Math_round h \<rparr>]
         else []))"
  using candidate_20_far [of w l h] by (simp add: candidate_def)

lemma sorted_20:
  "\<exists>rest. sort_key res_percentDifference (enumerate_candidates 20 no_constraints) =
      \<lparr> res_width = 12, res_length = 12, res_height = 32, res_volumeGallons = 19.9,
        res_percentDifference = 0.3, res_aspectRatio = Tall (2 / 5), res_footprint = 144,
        res_depth = 32 \<rparr> #
      \<lparr> res_width = 12, res_length = 16, res_height = 24, res_volumeGallons = 19.9,
        res_percentDifference = 0.3, res_aspectRatio = Tall (7 / 10), res_footprint = 192,
        res_depth = 24 \<rparr> #
      \<lparr> res_width = 12, res_length = 24, res_height = 16, res_volumeGallons = 19.9,
        res_percentDifference = 0.3, res_aspectRatio = Standard 2, res_footprint = 288,
        res_depth = 16 \<rparr> #
      \<lparr> res_width = 12, res_length = 32, res_height = 12, res_volumeGallons = 19.9,
        res_percentDifference = 0.3, res_aspectRatio = Wide (27 / 10), res_footprint = 384,
        res_depth = 12 \<rparr> #
      \<lparr> res_width = 16, res_length = 12, res_height = 24, res_volumeGallons = 19.9,
        res_percentDifference = 0.3, res_aspectRatio = Tall (1 / 2), res_footprint = 192,
        res_depth = 24 \<rparr> #
      \<lparr> res_width = 16, res_length = 16, res_height = 18, res_volumeGallons = 19.9,
        res_percentDifference = 0.3, res_aspectRatio = Tall (9 / 10), res_footprint = 256,
        res_depth = 18 \<rparr> #
      \<lparr> res_width = 16, res_length = 18, res_height = 16, res_volumeGallons = 19.9,
        res_percentDifference = 0.3, res_aspectRatio = Tall (11 / 10), res_footprint = 288,
        res_depth = 16 \<rparr> #
      \<lparr> res_width = 16, res_length = 24, res_height = 12, res_volumeGallons = 19.9,
        res_percentDifference = 0.3, res_aspectRatio = Standard (3 / 2), res_footprint = 384,
        res_depth = 12 \<rparr> #
      \<lparr> res_width = 18, res_length = 16, res_height = 16, res_volumeGallons = 19.9,
        res_percentDifference = 0.3, res_aspectRatio = Tall 1, res_footprint = 288,
        res_depth = 16 \<rparr> #
      \<lparr> res_width = 24, res_length = 12, res_height = 16, res_volumeGallons = 19.9,
        res_percentDifference = 0.3, res_aspectRatio = Deep 2, res_footprint = 288,
        res_depth = 16 \<rparr> # rest"
  by (simp add: enumerate_candidates_def no_constraints_def or_default_def minDimension_def
      maxDimension_def range_10_120 range_12_60 candidate_20_eval finder_calculateVolume_def
      tolerancePercent_def toFixed1_def Math_round_def getAspectRatio_def Let_def)

lemma findDimensions_20:
  "findDimensions 20 no_constraints 10 =
     [\<lparr> res_width = 12, res_length = 12, res_height = 32, res_volumeGallons = 19.9,
        res_percentDifference = 0.3, res_aspectRatio = Tall (2 / 5), res_footprint = 144,
        res_depth = 32 \<rparr>,
      \<lparr> res_width = 12, res_length = 16, res_height = 24, res_volumeGallons = 19.9,
        res_percentDifference = 0.3, res_aspectRatio = Tall (7 / 10), res_footprint = 192,
        res_depth = 24 \<rparr>,
      \<lparr> res_width = 12, res_length = 24, res_height = 16, res_volumeGallons = 19.9,
        res_percentDifference = 0.3, res_aspectRatio = Standard 2, res_footprint = 288,
        res_depth = 16 \<rparr>,
      \<lparr> res_width = 12, res_length = 32, res_height = 12, res_volumeGallons = 19.9,
        res_percentDifference = 0.3, res_aspectRatio = Wide (27 / 10), res_footprint = 384,
        res_depth = 12 \<rparr>,
      \<lparr> res_width = 16, res_length = 12, res_height = 24, res_volumeGallons = 19.9,
        res_percentDifference = 0.3, res_aspectRatio = Tall (1 / 2), res_footprint = 192,
        res_depth = 24 \<rparr>,
      \<lparr> res_width = 16, res_length = 16, res_height = 18, res_volumeGallons = 19.9,
        res_percentDifference = 0.3, res_aspectRatio = Tall (9 / 10), res_footprint = 256,
        res_depth = 18 \<rparr>,
      \<lparr> res_width = 16, res_length = 18, res_height = 16, res_volumeGallons = 19.9,
        res_percentDifference = 0.3, res_aspectRatio = Tall (11 / 10), res_footprint = 288,
        res_depth = 16 \<rparr>,
      \<lparr> res_width = 16, res_length = 24, res_height = 12, res_volumeGallons = 19.9,
        res_percentDifference = 0.3, res_aspectRatio = Standard (3 / 2), res_footprint = 384,
        res_depth = 12 \<rparr>,
      \<lparr> res_width = 18, res_length = 16, res_height = 16, res_volumeGallons = 19.9,
        res_percentDifference = 0.3, res_aspectRatio = Tall 1, res_footprint = 288,
        res_depth = 16 \<rparr>,
      \<lparr> res_width = 24, res_length = 12, res_height = 16, res_volumeGallons = 19.9,
        res_percentDifference = 0.3, res_aspectRatio = Deep 2, res_footprint = 288,
        res_depth = 16 \<rparr>]"
proof -
  obtain rest where "sort_key res_percentDifference (enumerate_candidates 20 no_constraints) =
      \<lparr> res_width = 12, res_length = 12, res_height = 32, res_volumeGallons = 19.9,
        res_percentDifference = 0.3, res_aspectRatio = Tall (2 / 5), res_footprint = 144,
        res_depth = 32 \<rparr> #
      \<lparr> res_width = 12, res_length = 16, res_height = 24, res_volumeGallons = 19.9,
        res_percentDifference = 0.3, res_aspectRatio = Tall (7 / 10), res_footprint = 192,
        res_depth = 24 \<rparr> #
      \<lparr> res_width = 12, res_length = 24, res_height = 16, res_volumeGallons = 19.9,
        res_percentDifference = 0.3, res_aspectRatio = Standard 2, res_footprint = 288,
        res_depth = 16 \<rparr> #
      \<lparr> res_width = 12, res_length = 32, res_height = 12, res_volumeGallons = 19.9,
        res_percentDifference = 0.3, res_aspectRatio = Wide (27 / 10), res_footprint = 384,
        res_depth = 12 \<rparr> #
      \<lparr> res_width = 16, res_length = 12, res_height = 24, res_volumeGallons = 19.9,
        res_percentDifference = 0.3, res_aspectRatio = Tall (1 / 2), res_footprint = 192,
        res_depth = 24 \<rparr> #
      \<lparr> res_width = 16, res_length = 16, res_height = 18, res_volumeGallons = 19.9,
        res_percentDifference = 0.3, res_aspectRatio = Tall (9 / 10), res_footprint = 256,
        res_depth = 18 \<rparr> #
      \<lparr> res_width = 16, res_length = 18, res_height = 16, res_volumeGallons = 19.9,
        res_percentDifference = 0.3, res_aspectRatio = Tall (11 / 10), res_footprint = 288,
        res_depth = 16 \<rparr> #
      \<lparr> res_width = 16, res_length = 24, res_height = 12, res_volumeGallons = 19.9,
        res_percentDifference = 0.3, res_aspectRatio = Standard (3 / 2), res_footprint = 384,
        res_depth = 12 \<rparr> #
      \<lparr> res_width = 18, res_length = 16, res_height = 16, res_volumeGallons = 19.9,
        res_percentDifference = 0.3, res_aspectRatio = Tall 1, res_footprint = 288,
        res_depth = 16 \<rparr> #
      \<lparr> res_width = 24, res_length = 12, res_height = 16, res_volumeGallons = 19.9,
        res_percentDifference = 0.3, res_aspectRatio = Deep 2, res_footprint = 288,
        res_depth = 16 \<rparr> # rest"
    using sorted_20 by blast
  then show ?thesis
    by (simp add: findDimensions_def getUniqueResults_def Let_def)
qed

text \<open>
  C2: the list returned by \<open>findDimensions\<close> has at most \<open>maxResults\<close> entries. The
  search for 20 gallons with the default constraints and \<open>maxResults\<close> 0 returns one
  entry, the 12 x 12 x 32 triple: \<open>getUniqueResults\<close> tests the cap only after it has
  pushed an entry.
\<close>

theorem findDimensions_zero_cap:
  "findDimensions 20 no_constraints 0 =
     [\<lparr> res_width = 12, res_length = 12, res_height = 32, res_volumeGallons = 19.9,
        res_percentDifference = 0.3, res_aspectRatio = Tall (2 / 5), res_footprint = 144,
        res_depth = 32 \<rparr>]
   \<and> length (findDimensions 20 no_constraints 0) = 1
   \<and> \<not> int (length (findDimensions 20 no_constraints 0)) \<le> 0"
proof -
  obtain rest where "sort_key res_percentDifference (enumerate_candidates 20 no_constraints) =
      \<lparr> res_width = 12, res_length = 12, res_height = 32, res_volumeGallons = 19.9,
        res_percentDifference = 0.3, res_aspectRatio = Tall (2 / 5), res_footprint = 144,
        res_depth = 32 \<rparr> # rest"
    using sorted_20 by blast
  then show ?thesis
    by (simp add: findDimensions_def getUniqueResults_def Let_def)
qed

text \<open>
  C7 (as stated in the specification): the result of \<open>findDimensions(20)\<close> contains the
  triple 30 x 12 x 12. It does not, in any order of the axes.
\<close>

theorem reference_triple_counterexample:
  "\<not> (\<exists>r \<in> set (findDimensions 20 no_constraints 10).
         (res_width r, res_length r, res_height r) \<in> {(30, 12, 12), (12, 30, 12), (12, 12, 30)})"
  by (simp add: findDimensions_20)

text \<open>
  C7 (amended): the result of \<open>findDimensions(20)\<close> with the default tolerance,
  constraints and result count is the list of the ten triples below, each of 19.9 gallons
  and 0.3 percent deviation. It does not contain 30 x 12 x 12, because 30 is not a value of
  the step schedule (which goes 24, 28, 32), although that triple's actual volume of 18.7
  gallons is within the tolerance. The deviation of each entry is computed against the
  actual geometric volume of the entry's own triple.
\<close>

theorem findDimensions_20_result:
  "map (\<lambda>r. (res_width r, res_length r, res_height r, res_volumeGallons r,
              res_percentDifference r)) (findDimensions 20 no_constraints 10) =
     [(12, 12, 32, 19.9, 0.3),
      (12, 16, 24, 19.9, 0.3),
      (12, 24, 16, 19.9, 0.3),
      (12, 32, 12, 19.9, 0.3),
      (16, 12, 24, 19.9, 0.3),
      (16, 16, 18, 19.9, 0.3),
      (16, 18, 16, 19.9, 0.3),
      (16, 24, 12, 19.9, 0.3),
      (18, 16, 16, 19.9, 0.3),
      (24, 12, 16, 19.9, 0.3)]
   \<and> 30 \<notin> set (getDimensionRange minDimension maxDimension)
   \<and> 30 \<notin> set (getDimensionRange 12 60)
   \<and> toFixed1 (finder_calculateVolume 30 12 12 * 0.264172) = 18.7
   \<and> \<bar>finder_calculateVolume 30 12 12 * 0.264172 - 20\<bar> / 20 * 100 \<le> tolerancePercent * 100
   \<and> map res_percentDifference (findDimensions 20 no_constraints 10) =
       map (\<lambda>r. toFixed1 (\<bar>finder_calculateVolume (res_length r) (res_width r) (res_height r)
                              * 0.264172 - 20\<bar> / 20 * 100))
         (findDimensions 20 no_constraints 10)"
  by (simp add: findDimensions_20 range_10_120 range_12_60 minDimension_def maxDimension_def
      finder_calculateVolume_def toFixed1_def tolerancePercent_def Let_def)

end
